theory Spec2Isabelle
  imports Complex_Main "HOL-Library.Char_ord" "HOL-Library.List_Lexorder"
begin

section \<open>JavaScript values and objects\<close>

text \<open>
  The backend keeps plain JavaScript objects and spreads request bodies into them, so a
  stored course is modelled as an object: a finite map from property names to values.
  A property that is \<^verbatim>\<open>undefined\<close> is an absent key, which is also how
  \<^verbatim>\<open>res.json\<close> serialises it. Numbers that reach the server come from JSON, so they
  are finite; they are modelled as rationals. A \<^verbatim>\<open>Date\<close> is its time value in
  milliseconds since the epoch. Strings are byte strings (ASCII).
\<close>

datatype jsval =
    JNull
  | JBool bool
  | JNum rat
  | JStr string
  | JDate nat
  | JArr "jsval list"
  | JObj "(string \<times> jsval) list"

type_synonym obj = "string \<rightharpoonup> jsval"

datatype jstype = TUndefined | TObject | TBoolean | TNumber | TString

fun typeof :: "jsval option \<Rightarrow> jstype" where
  "typeof None = TUndefined"
| "typeof (Some JNull) = TObject"
| "typeof (Some (JBool b)) = TBoolean"
| "typeof (Some (JNum n)) = TNumber"
| "typeof (Some (JStr s)) = TString"
| "typeof (Some (JDate d)) = TObject"
| "typeof (Some (JArr xs)) = TObject"
| "typeof (Some (JObj kvs)) = TObject"

text \<open>\<^verbatim>\<open>!v\<close>: the falsy values are undefined, null, false, 0 and the empty string.\<close>

fun falsy :: "jsval option \<Rightarrow> bool" where
  "falsy None = True"
| "falsy (Some JNull) = True"
| "falsy (Some (JBool b)) = (\<not> b)"
| "falsy (Some (JNum n)) = (n = 0)"
| "falsy (Some (JStr s)) = (s = [])"
| "falsy (Some (JDate d)) = False"
| "falsy (Some (JArr xs)) = False"
| "falsy (Some (JObj kvs)) = False"

text \<open>
  \<^verbatim>\<open>a === b\<close> where one side has just been parsed from a request: two primitive
  values are compared by value; an array, an object or a date is identical only to itself,
  and a value that has just been parsed is not an object the server already holds.
\<close>

fun isPrimitive :: "jsval \<Rightarrow> bool" where
  "isPrimitive JNull = True"
| "isPrimitive (JBool b) = True"
| "isPrimitive (JNum n) = True"
| "isPrimitive (JStr s) = True"
| "isPrimitive (JDate d) = False"
| "isPrimitive (JArr xs) = False"
| "isPrimitive (JObj kvs) = False"

definition strictEquals :: "jsval \<Rightarrow> jsval \<Rightarrow> bool" where
  "strictEquals a b = (isPrimitive a \<and> isPrimitive b \<and> a = b)"


definition isWhitespace :: "char \<Rightarrow> bool" where
  "isWhitespace c = (c \<in> set [CHR '' '', CHR 0x09, CHR 0x0A, CHR 0x0B, CHR 0x0C, CHR 0x0D])"

definition trim :: "string \<Rightarrow> string" where
  "trim s = rev (dropWhile isWhitespace (rev (dropWhile isWhitespace s)))"

text \<open>\<^verbatim>\<open>v.trim().length === 0\<close> for a value already known to be a string.\<close>

fun trimmedEmpty :: "jsval option \<Rightarrow> bool" where
  "trimmedEmpty (Some (JStr s)) = (length (trim s) = 0)"
| "trimmedEmpty _ = False"

fun join :: "string \<Rightarrow> string list \<Rightarrow> string" where
  "join sep [] = []"
| "join sep [x] = x"
| "join sep (x # y # ys) = x @ sep @ join sep (y # ys)"

fun findIndex :: "('a \<Rightarrow> bool) \<Rightarrow> 'a list \<Rightarrow> nat option" where
  "findIndex p [] = None"
| "findIndex p (x # xs) =
     (if p x then Some 0 else (case findIndex p xs of None \<Rightarrow> None | Some i \<Rightarrow> Some (Suc i)))"

text \<open>\<^verbatim>\<open>Number.prototype.toString\<close> on a non-negative integer: its decimal digits.\<close>

definition digitChar :: "nat \<Rightarrow> char" where
  "digitChar d = ''0123456789'' ! d"

fun toString :: "nat \<Rightarrow> string" where
  "toString n = (if n < 10 then [digitChar n] else toString (n div 10) @ [digitChar (n mod 10)])"

declare toString.simps [simp del]

section \<open>types.ts\<close>

text \<open>
  A stored user. The id and the password are never written after the seed and are strings;
  the username and the email are whatever value the last profile update stored.
\<close>

record user =
  user_id :: string
  username :: jsval
  email :: jsval
  password :: string
  lastLogin :: "nat option"

text \<open>\<^verbatim>\<open>Omit<User, 'password'>\<close>, the user as login and profile update return it.\<close>

record userView =
  view_id :: string
  view_username :: jsval
  view_email :: jsval
  view_lastLogin :: "nat option"

section \<open>The token library\<close>

text \<open>
  Modelled from the spec: the functions \<^verbatim>\<open>jwt.sign\<close> and \<^verbatim>\<open>jwt.verify\<close> of
  the jsonwebtoken package, which middleware.ts calls and whose code is not part of the
  sources. The spec's Session Token is a signed payload with the user's id and username, the
  instant of issue and the instant of expiry; verification fails when the signature does not
  match or the current time is at or after the expiry. The signature is idealised: a token
  records the key it was signed with. The package keeps the two instants in whole seconds
  (the iat and exp of a JWT), and so does the model: the clock, in milliseconds, is rounded
  down to the second when a token is signed and when it is verified. The lifetime is the
  \<^verbatim>\<open>expiresIn\<close> option the caller passes.
\<close>

record token =
  tok_id :: string
  tok_username :: jsval
  issuedAt :: nat
  expiresAt :: nat
  signedWith :: string

text \<open>
  Modelled from the spec: the lifetime of a token, 24 hours in the spec, which the caller
  names in the \<^verbatim>\<open>expiresIn\<close> option as a time span. The package reads a span
  as milliseconds; the model reads a whole number followed by ms, s, m, h or d (or by
  nothing, for milliseconds), and any other text is no span.
\<close>

definition isDigit :: "char \<Rightarrow> bool" where
  "isDigit c = (c \<in> set ''0123456789'')"

definition digitValue :: "char \<Rightarrow> nat" where
  "digitValue c = length (takeWhile (\<lambda>d. d \<noteq> c) ''0123456789'')"

definition parseDigits :: "string \<Rightarrow> nat" where
  "parseDigits ds = foldl (\<lambda>acc c. 10 * acc + digitValue c) 0 ds"

definition ms :: "string \<Rightarrow> nat option" where
  "ms str =
     (let digits = takeWhile isDigit str;
          unit = dropWhile isDigit str;
          n = parseDigits digits
      in if digits = [] then None
         else if unit = [] \<or> unit = ''ms'' then Some n
         else if unit = ''s'' then Some (n * 1000)
         else if unit = ''m'' then Some (n * 60000)
         else if unit = ''h'' then Some (n * 3600000)
         else if unit = ''d'' then Some (n * 86400000)
         else None)"

text \<open>
  Modelled from the spec: \<^verbatim>\<open>issue(userId, username)\<close>, a signed token asserting the
  identity and expiring the given span after the second of issuance. \<open>None\<close> is the error
  the package throws for an \<^verbatim>\<open>expiresIn\<close> that is no span.
\<close>

definition jwt_sign :: "string \<Rightarrow> jsval \<Rightarrow> string \<Rightarrow> string \<Rightarrow> nat \<Rightarrow> token option" where
  "jwt_sign uid uname secret expiresIn now =
     (case ms expiresIn of
        None \<Rightarrow> None
      | Some milliseconds \<Rightarrow>
          Some \<lparr>tok_id = uid, tok_username = uname, issuedAt = now div 1000,
                expiresAt = now div 1000 + milliseconds div 1000, signedWith = secret\<rparr>)"

definition decoded :: "token \<Rightarrow> obj" where
  "decoded t =
     [''id'' \<mapsto> JStr (tok_id t), ''username'' \<mapsto> tok_username t,
      ''iat'' \<mapsto> JNum (of_nat (issuedAt t)), ''exp'' \<mapsto> JNum (of_nat (expiresAt t))]"

text \<open>
  Modelled from the spec: \<^verbatim>\<open>verify(token)\<close>, which fails when the signature does
  not match or the current second is at or after the expiry, and otherwise gives the payload.
\<close>

definition jwt_verify :: "token \<Rightarrow> string \<Rightarrow> nat \<Rightarrow> obj option" where
  "jwt_verify t secret now =
     (if signedWith t \<noteq> secret then None
      else if expiresAt t \<le> now div 1000 then None
      else Some (decoded t))"

section \<open>Responses\<close>

datatype rdata =
    DCourse obj
  | DCourses "obj list"
  | DAuth token userView
  | DMessage string
  | DProfile obj
  | DUser userView

text \<open>\<^verbatim>\<open>ApiResponse<T>\<close> together with the HTTP status it is sent with.\<close>

record response =
  status :: nat
  success :: bool
  data :: "rdata option"
  message :: "string option"
  error :: "string option"

definition failure :: "nat \<Rightarrow> string \<Rightarrow> response" where
  "failure code msg =
     \<lparr>status = code, success = False, data = None, message = None, error = Some msg\<rparr>"

definition ok :: "nat \<Rightarrow> rdata \<Rightarrow> string option \<Rightarrow> response" where
  "ok code d msg =
     \<lparr>status = code, success = True, data = Some d, message = msg, error = None\<rparr>"

section \<open>storage.ts\<close>

record state =
  courses :: "obj list"
  users :: "user list"

definition seedCourse ::
  "string \<Rightarrow> string \<Rightarrow> string \<Rightarrow> string \<Rightarrow> rat \<Rightarrow> nat \<Rightarrow> obj" where
  "seedCourse i t d c h day =
     [''id'' \<mapsto> JStr i, ''title'' \<mapsto> JStr t, ''description'' \<mapsto> JStr d,
      ''category'' \<mapsto> JStr c, ''level'' \<mapsto> JStr ''intermediate'', ''duration'' \<mapsto> JNum h,
      ''published'' \<mapsto> JBool True, ''createdAt'' \<mapsto> JDate day, ''updatedAt'' \<mapsto> JDate day,
      ''userId'' \<mapsto> JStr ''1'']"

definition seedCourses :: "obj list" where
  "seedCourses =
     [seedCourse ''1'' ''Pearson BTEC Level 4 Diploma in Business Administration''
        ''Comprehensive business administration course covering management principles, finance, marketing, and operational strategies.''
        ''Business & Management'' 40 1705276800000,
      seedCourse ''2'' ''Level 3 Diploma in Health and Social Care''
        ''Essential training for healthcare professionals covering patient care, medical ethics, and social care practices.''
        ''Health & Social Care'' 60 1705708800000,
      seedCourse ''3'' ''BTEC Level 3 IT Diploma''
        ''Complete information technology course covering programming, networking, cybersecurity, and system administration.''
        ''Information Technology'' 80 1706140800000,
      seedCourse ''4'' ''CACHE Level 3 Award in Childcare''
        ''Specialized training for childcare professionals focusing on child development, safety, and educational practices.''
        ''Teaching & Education'' 30 1706745600000,
      seedCourse ''5'' ''AAT Level 3 Diploma in Accounting''
        ''Professional accounting qualification covering financial reporting, taxation, and business finance principles.''
        ''Accounting & Finance'' 50 1707091200000,
      seedCourse ''6'' ''Level 4 Teaching Assistant Diploma''
        ''Advanced training for teaching assistants covering classroom management, special needs education, and student support.''
        ''Teaching & Education'' 70 1707523200000]"

definition seedUsers :: "user list" where
  "seedUsers =
     [\<lparr>user_id = ''1'', username = JStr ''admin'', email = JStr ''admin@example.com'',
       password = ''password123'', lastLogin = None\<rparr>,
      \<lparr>user_id = ''2'', username = JStr ''user'', email = JStr ''user@example.com'',
       password = ''user123'', lastLogin = None\<rparr>]"

definition initialState :: state where
  "initialState = \<lparr>courses = seedCourses, users = seedUsers\<rparr>"

text \<open>
  \<^verbatim>\<open>addCourse\<close>: the body is spread first, then id, createdAt and updatedAt are
  written over it. \<open>now\<close> is the reading of the clock; the function reads it three times
  and the three readings are taken to be the same instant.
\<close>

definition addCourse :: "nat \<Rightarrow> obj \<Rightarrow> obj list \<Rightarrow> obj \<times> obj list" where
  "addCourse now course cs =
     (let newCourse = course(''id'' \<mapsto> JStr (toString now),
                             ''createdAt'' \<mapsto> JDate now,
                             ''updatedAt'' \<mapsto> JDate now)
      in (newCourse, cs @ [newCourse]))"

definition findUserById :: "string \<Rightarrow> user list \<Rightarrow> user option" where
  "findUserById i us = find (\<lambda>u. user_id u = i) us"

text \<open>\<^verbatim>\<open>c.id === id\<close> with \<open>id\<close> a string: the stored id is that very string.\<close>

definition hasId :: "string \<Rightarrow> obj \<Rightarrow> bool" where
  "hasId i c = (c ''id'' = Some (JStr i))"

definition updateCourse :: "string \<Rightarrow> obj \<Rightarrow> nat \<Rightarrow> obj list \<Rightarrow> obj option \<times> obj list" where
  "updateCourse i updates now cs =
     (case findIndex (hasId i) cs of
        None \<Rightarrow> (None, cs)
      | Some courseIndex \<Rightarrow>
          (let existingCourse = cs ! courseIndex;
               merged = (existingCourse ++ updates)(''updatedAt'' \<mapsto> JDate now)
           in (Some merged, cs[courseIndex := merged])))"

definition deleteCourse :: "string \<Rightarrow> obj list \<Rightarrow> bool \<times> obj list" where
  "deleteCourse i cs =
     (case findIndex (hasId i) cs of
        None \<Rightarrow> (False, cs)
      | Some courseIndex \<Rightarrow> (True, take courseIndex cs @ drop (Suc courseIndex) cs))"


definition findUserByUsername :: "jsval \<Rightarrow> user list \<Rightarrow> user option" where
  "findUserByUsername name us = find (\<lambda>u. strictEquals (username u) name) us"

section \<open>middleware.ts\<close>

definition JWT_SECRET :: "string option \<Rightarrow> string" where
  "JWT_SECRET env =
     (case env of None \<Rightarrow> ''your-secret-key''
      | Some s \<Rightarrow> if s = [] then ''your-secret-key'' else s)"

text \<open>
  The value of the Authorization header after \<^verbatim>\<open>split(' ')\<close>: a part that is a
  well-formed token is \<open>Jwt\<close>, any other text is \<open>Word\<close>. \<open>None\<close> is a request
  without the header.
\<close>

datatype hpart = Word string | Jwt token

text \<open>
  \<^verbatim>\<open>authenticateToken\<close> answers 401 or 403 itself (\<open>Inl\<close>) or passes on with the
  decoded payload as \<^verbatim>\<open>req.user\<close> (\<open>Inr\<close>).
\<close>

definition authenticateToken :: "string \<Rightarrow> nat \<Rightarrow> hpart list option \<Rightarrow> response + obj" where
  "authenticateToken secret now authHeader =
     (case authHeader of
        None \<Rightarrow> Inl (failure 401 ''Access token required'')
      | Some parts \<Rightarrow>
          (case drop 1 parts of
             [] \<Rightarrow> Inl (failure 401 ''Access token required'')
           | Word w # _ \<Rightarrow>
               if w = [] then Inl (failure 401 ''Access token required'')
               else Inl (failure 403 ''Invalid or expired token'')
           | Jwt t # _ \<Rightarrow>
               (case jwt_verify t secret now of
                  None \<Rightarrow> Inl (failure 403 ''Invalid or expired token'')
                | Some u \<Rightarrow> Inr u)))"

definition levels :: "jsval list" where
  "levels = [JStr ''beginner'', JStr ''intermediate'', JStr ''advanced'']"

text \<open>\<^verbatim>\<open>Array.prototype.includes\<close> on an array of strings.\<close>

fun includesVal :: "jsval list \<Rightarrow> jsval option \<Rightarrow> bool" where
  "includesVal vs None = False"
| "includesVal vs (Some v) = (v \<in> set vs)"

fun notPositiveNumber :: "jsval option \<Rightarrow> bool" where
  "notPositiveNumber (Some (JNum d)) = (d \<le> 0)"
| "notPositiveNumber _ = True"

definition courseErrors :: "obj \<Rightarrow> string list" where
  "courseErrors body =
     (if falsy (body ''title'') \<or> typeof (body ''title'') \<noteq> TString \<or> trimmedEmpty (body ''title'')
      then [''Title is required and must be a non-empty string''] else [])
     @ (if falsy (body ''description'') \<or> typeof (body ''description'') \<noteq> TString
           \<or> trimmedEmpty (body ''description'')
        then [''Description is required and must be a non-empty string''] else [])
     @ (if falsy (body ''category'') \<or> typeof (body ''category'') \<noteq> TString
           \<or> trimmedEmpty (body ''category'')
        then [''Category is required and must be a non-empty string''] else [])
     @ (if falsy (body ''level'') \<or> \<not> includesVal levels (body ''level'')
        then [''Level must be one of: beginner, intermediate, advanced''] else [])
     @ (if notPositiveNumber (body ''duration'')
        then [''Duration must be a positive number''] else [])
     @ (if typeof (body ''published'') \<noteq> TBoolean
        then [''Published must be a boolean''] else [])"

text \<open>\<^verbatim>\<open>validateCourse\<close>: \<open>Some\<close> is the 400 it answers, \<open>None\<close> is \<^verbatim>\<open>next()\<close>.\<close>

definition validateCourse :: "obj \<Rightarrow> response option" where
  "validateCourse body =
     (let errors = courseErrors body
      in if length errors > 0 then Some (failure 400 (join '', '' errors)) else None)"

text \<open>\<^verbatim>\<open>jwt.sign(user, JWT_SECRET, { expiresIn: '24h' })\<close>.\<close>

definition generateToken :: "string \<Rightarrow> jsval \<Rightarrow> string \<Rightarrow> nat \<Rightarrow> token option" where
  "generateToken uid uname secret now = jwt_sign uid uname secret ''24h'' now"

section \<open>api.ts: the header the client sends\<close>

text \<open>\<^verbatim>\<open>headers.Authorization = `Bearer ${this.token}`\<close>, as the server splits it.\<close>

definition bearer :: "token \<Rightarrow> hpart list option" where
  "bearer t = Some [Word ''Bearer'', Jwt t]"

section \<open>routes.ts\<close>

text \<open>
  Each handler takes the signing key, the reading of the clock, what the request carries and
  the two collections, and returns the response together with the collections afterwards.
\<close>

text \<open>
  \<^verbatim>\<open>POST /auth/login\<close>. The body is the parsed JSON as it comes; the handler tests
  the two fields for truthiness only. When \<^verbatim>\<open>generateToken\<close> throws, the error
  handler of the application answers 500; the login time has been written by then.
\<close>

definition post_auth_login :: "string \<Rightarrow> nat \<Rightarrow> obj \<Rightarrow> state \<Rightarrow> response \<times> state" where
  "post_auth_login secret now body st =
     (if falsy (body ''username'') \<or> falsy (body ''password'')
      then (failure 400 ''Username and password are required'', st)
      else
        (case (body ''username'', body ''password'') of
           (Some uname, Some pw) \<Rightarrow>
             (case findUserByUsername uname (users st) of
                None \<Rightarrow> (failure 401 ''Invalid credentials'', st)
              | Some u \<Rightarrow>
                  if JStr (password u) \<noteq> pw then (failure 401 ''Invalid credentials'', st)
                  else
                    (let userIndex = findIndex (\<lambda>x. user_id x = user_id u) (users st);
                         us = (case userIndex of
                                 None \<Rightarrow> users st
                               | Some k \<Rightarrow> (users st)[k := (users st ! k)\<lparr>lastLogin := Some now\<rparr>])
                     in case generateToken (user_id u) (username u) secret now of
                          None \<Rightarrow> (failure 500 ''Something went wrong!'', st\<lparr>users := us\<rparr>)
                        | Some tok \<Rightarrow>
                            (ok 200 (DAuth tok
                                 \<lparr>view_id = user_id u, view_username = username u,
                                  view_email = email u,
                                  view_lastLogin =
                                    (case userIndex of
                                       None \<Rightarrow> None
                                     | Some k \<Rightarrow> lastLogin (us ! k))\<rparr>) None,
                             st\<lparr>users := us\<rparr>)))
         | _ \<Rightarrow> (failure 400 ''Username and password are required'', st)))"




definition post_courses :: "string \<Rightarrow> nat \<Rightarrow> hpart list option \<Rightarrow> obj \<Rightarrow> state \<Rightarrow> response \<times> state" where
  "post_courses secret now authHeader body st =
     (case authenticateToken secret now authHeader of
        Inl r \<Rightarrow> (r, st)
      | Inr u \<Rightarrow>
          (case validateCourse body of
             Some r \<Rightarrow> (r, st)
           | None \<Rightarrow>
               (let (newCourse, cs) = addCourse now body (courses st)
                in (ok 201 (DCourse newCourse) (Some ''Course created successfully''),
                    st\<lparr>courses := cs\<rparr>))))"

definition put_course ::
  "string \<Rightarrow> nat \<Rightarrow> hpart list option \<Rightarrow> string \<Rightarrow> obj \<Rightarrow> state \<Rightarrow> response \<times> state" where
  "put_course secret now authHeader i body st =
     (case authenticateToken secret now authHeader of
        Inl r \<Rightarrow> (r, st)
      | Inr u \<Rightarrow>
          (case validateCourse body of
             Some r \<Rightarrow> (r, st)
           | None \<Rightarrow>
               if i = [] then (failure 400 ''Course ID is required'', st)
               else
                 (case updateCourse i body now (courses st) of
                    (None, cs) \<Rightarrow> (failure 404 ''Course not found'', st\<lparr>courses := cs\<rparr>)
                  | (Some updatedCourse, cs) \<Rightarrow>
                      (ok 200 (DCourse updatedCourse) (Some ''Course updated successfully''),
                       st\<lparr>courses := cs\<rparr>))))"

definition delete_course ::
  "string \<Rightarrow> nat \<Rightarrow> hpart list option \<Rightarrow> string \<Rightarrow> state \<Rightarrow> response \<times> state" where
  "delete_course secret now authHeader i st =
     (case authenticateToken secret now authHeader of
        Inl r \<Rightarrow> (r, st)
      | Inr u \<Rightarrow>
          if i = [] then (failure 400 ''Course ID is required'', st)
          else
            (case deleteCourse i (courses st) of
               (False, cs) \<Rightarrow> (failure 404 ''Course not found'', st\<lparr>courses := cs\<rparr>)
             | (True, cs) \<Rightarrow>
                 (ok 200 (DMessage ''Course deleted successfully'') None, st\<lparr>courses := cs\<rparr>)))"

text \<open>
  \<^verbatim>\<open>GET /profile\<close>: \<open>user\<close> is \<^verbatim>\<open>req.user\<close>, the decoded payload of the
  token; the handler spreads it and does not read the user collection.
\<close>

definition get_profile :: "string \<Rightarrow> nat \<Rightarrow> hpart list option \<Rightarrow> state \<Rightarrow> response \<times> state" where
  "get_profile secret now authHeader st =
     (case authenticateToken secret now authHeader of
        Inl r \<Rightarrow> (r, st)
      | Inr user \<Rightarrow>
          (let userCourses = filter (\<lambda>course. course ''userId'' = user ''id'') (courses st);
               profileData = (user(''coursesCreated'' \<mapsto> JNum (of_nat (length userCourses))))
                               (''lastLogin'' := user ''lastLogin'')
           in (ok 200 (DProfile profileData) None, st)))"







section \<open>CourseList.tsx: the derived view\<close>

text \<open>
  The \<^verbatim>\<open>Course\<close> of the frontend, as its interface types it. A date is the time
  value that \<^verbatim>\<open>new Date(...)\<close> gives for it.
\<close>

record course =
  course_id :: string
  title :: string
  description :: string
  category :: string
  level :: string
  duration :: rat
  published :: bool
  userId :: string
  createdAt :: int
  updatedAt :: int

definition toLowerChar :: "char \<Rightarrow> char" where
  "toLowerChar c =
     (if CHR ''A'' \<le> c \<and> c \<le> CHR ''Z'' then char_of (of_char c + (32::nat)) else c)"

definition toLowerCase :: "string \<Rightarrow> string" where
  "toLowerCase s = map toLowerChar s"

text \<open>\<^verbatim>\<open>String.prototype.includes\<close>: the needle starts at some position.\<close>

definition strIncludes :: "string \<Rightarrow> string \<Rightarrow> bool" where
  "strIncludes s needle =
     list_ex (\<lambda>k. take (length needle) (drop k s) = needle) [0 ..< Suc (length s)]"

record filterState =
  searchQuery :: string
  selectedCategories :: "string list"
  selectedLevel :: string
  publishedFilter :: "bool option"

definition matches :: "filterState \<Rightarrow> course \<Rightarrow> bool" where
  "matches f c =
     (let matchesSearch =
            (searchQuery f = [] \<or>
             strIncludes (toLowerCase (title c)) (toLowerCase (searchQuery f)) \<or>
             strIncludes (toLowerCase (description c)) (toLowerCase (searchQuery f)));
          matchesCategory =
            (length (selectedCategories f) = 0 \<or> category c \<in> set (selectedCategories f));
          matchesLevel = (selectedLevel f = [] \<or> level c = selectedLevel f);
          matchesPublished =
            (case publishedFilter f of None \<Rightarrow> True | Some p \<Rightarrow> published c = p)
      in matchesSearch \<and> matchesCategory \<and> matchesLevel \<and> matchesPublished)"

definition filteredCourses :: "filterState \<Rightarrow> course list \<Rightarrow> course list" where
  "filteredCourses f cs = filter (matches f) cs"

datatype sortDirection = Asc | Desc

text \<open>The last three lines of the comparator, for two keys of one ordered type.\<close>

definition outcome :: "sortDirection \<Rightarrow> 'a::linorder \<Rightarrow> 'a \<Rightarrow> int" where
  "outcome dir aValue bValue =
     (if aValue < bValue then (if dir = Asc then - 1 else 1)
      else if bValue < aValue then (if dir = Asc then 1 else - 1)
      else 0)"

definition compareCourses :: "string \<Rightarrow> sortDirection \<Rightarrow> course \<Rightarrow> course \<Rightarrow> int" where
  "compareCourses sortField dir a b =
     (if sortField = ''title'' then outcome dir (toLowerCase (title a)) (toLowerCase (title b))
      else if sortField = ''category''
        then outcome dir (toLowerCase (category a)) (toLowerCase (category b))
      else if sortField = ''level'' then outcome dir (level a) (level b)
      else if sortField = ''duration'' then outcome dir (duration a) (duration b)
      else if sortField = ''createdAt'' then outcome dir (createdAt a) (createdAt b)
      else if sortField = ''updatedAt'' then outcome dir (updatedAt a) (updatedAt b)
      else 0)"

text \<open>
  \<^verbatim>\<open>Array.prototype.sort\<close> with a comparator is stable: elements that compare equal
  keep their order. For a consistent comparator that fixes the result, which is computed here
  by inserting each element, from the last to the first, in front of the first element it
  does not come after.
\<close>

fun insertBy :: "('a \<Rightarrow> 'a \<Rightarrow> int) \<Rightarrow> 'a \<Rightarrow> 'a list \<Rightarrow> 'a list" where
  "insertBy cmp x [] = [x]"
| "insertBy cmp x (y # ys) = (if cmp x y \<le> 0 then x # y # ys else y # insertBy cmp x ys)"

definition arraySort :: "('a \<Rightarrow> 'a \<Rightarrow> int) \<Rightarrow> 'a list \<Rightarrow> 'a list" where
  "arraySort cmp xs = foldr (insertBy cmp) xs []"

definition sortedCourses :: "string \<Rightarrow> sortDirection \<Rightarrow> course list \<Rightarrow> course list" where
  "sortedCourses sortField dir cs = arraySort (compareCourses sortField dir) cs"

section \<open>Concrete requests\<close>

text \<open>The inputs at which the theorems below are instantiated.\<close>

definition exampleSecret :: string where
  "exampleSecret = JWT_SECRET None"

text \<open>The tokens a login of each seed user at 1700000000000 returns.\<close>

definition adminToken :: token where
  "adminToken =
     \<lparr>tok_id = ''1'', tok_username = JStr ''admin'', issuedAt = 1700000000,
      expiresAt = 1700086400, signedWith = exampleSecret\<rparr>"


definition exampleBody :: obj where
  "exampleBody =
     [''title'' \<mapsto> JStr ''T'', ''description'' \<mapsto> JStr ''D'', ''category'' \<mapsto> JStr ''C'',
      ''level'' \<mapsto> JStr ''beginner'', ''duration'' \<mapsto> JNum 5, ''published'' \<mapsto> JBool False]"


definition clientStampedBody :: obj where
  "clientStampedBody =
     exampleBody(''id'' \<mapsto> JStr ''999'', ''createdAt'' \<mapsto> JStr ''2000-01-01T00:00:00.000Z'',
                 ''updatedAt'' \<mapsto> JStr ''2000-01-01T00:00:00.000Z'')"

definition fractionalBody :: obj where
  "fractionalBody = exampleBody(''duration'' \<mapsto> JNum (5 / 2))"

definition adminLogin :: obj where
  "adminLogin = [''username'' \<mapsto> JStr ''admin'', ''password'' \<mapsto> JStr ''password123'']"






section \<open>The invariant of the user collection\<close>


section \<open>Auxiliary facts\<close>

lemma findIndex_None: "findIndex p xs = None \<longleftrightarrow> (\<forall>x \<in> set xs. \<not> p x)"
  by (induction xs) (auto split: option.splits)


lemma generateToken_24h:
  "generateToken uid uname secret now
     = Some \<lparr>tok_id = uid, tok_username = uname, issuedAt = now div 1000,
             expiresAt = now div 1000 + 86400, signedWith = secret\<rparr>"
  by (simp add: generateToken_def jwt_sign_def ms_def isDigit_def parseDigits_def digitValue_def)

lemma auth_example:
  "authenticateToken exampleSecret 1700000000500 (bearer adminToken) = Inr (decoded adminToken)"
  by (simp add: authenticateToken_def bearer_def adminToken_def jwt_verify_def)

lemma seed_ids:
  "map (\<lambda>c. c ''id'') (courses initialState) =
     [Some (JStr ''1''), Some (JStr ''2''), Some (JStr ''3''),
      Some (JStr ''4''), Some (JStr ''5''), Some (JStr ''6'')]"
  by (simp add: initialState_def seedCourses_def seedCourse_def)



lemma validate_exampleBody: "validateCourse exampleBody = None"
  by (simp add: validateCourse_def courseErrors_def levels_def exampleBody_def trim_def
      isWhitespace_def)

lemma validate_clientStampedBody: "validateCourse clientStampedBody = None"
  by (simp add: validateCourse_def courseErrors_def levels_def clientStampedBody_def exampleBody_def trim_def
      isWhitespace_def)

lemma validate_fractionalBody: "validateCourse fractionalBody = None"
  by (simp add: validateCourse_def courseErrors_def levels_def fractionalBody_def exampleBody_def trim_def
      isWhitespace_def)

lemma first_seed: "findIndex (hasId ''1'') (courses initialState) = Some 0"
  by (simp add: initialState_def seedCourses_def seedCourse_def hasId_def)

lemma toString_example: "toString 1700000000500 = ''1700000000500''"
  by (simp add: toString.simps digitChar_def)

subsection \<open>The comparator is a total preorder, the sort leaves sorted input alone\<close>

lemma outcome_le: "outcome dir a b \<le> 0 \<longleftrightarrow> (if dir = Asc then a \<le> b else b \<le> a)"
  by (auto simp: outcome_def)

lemma outcome_trans: "outcome dir a b \<le> 0 \<Longrightarrow> outcome dir b c \<le> 0 \<Longrightarrow> outcome dir a c \<le> 0"
  by (simp add: outcome_le split: if_splits)

lemma outcome_total: "\<not> outcome dir a b \<le> 0 \<Longrightarrow> outcome dir b a \<le> 0"
  by (simp add: outcome_le split: if_splits)

lemma compareCourses_trans:
  "compareCourses f d a b \<le> 0 \<Longrightarrow> compareCourses f d b c \<le> 0 \<Longrightarrow> compareCourses f d a c \<le> 0"
  unfolding compareCourses_def
  by (simp split: if_splits) (blast intro: outcome_trans)+

lemma compareCourses_total: "\<not> compareCourses f d a b \<le> 0 \<Longrightarrow> compareCourses f d b a \<le> 0"
  unfolding compareCourses_def
  by (simp split: if_splits) (blast intro: outcome_total)+

lemma set_insertBy: "set (insertBy cmp x xs) = insert x (set xs)"
  by (induction xs) auto

lemma insertBy_in_order:
  "sorted_wrt (\<lambda>a b. cmp a b \<le> 0) (x # xs) \<Longrightarrow> insertBy cmp x xs = x # xs"
  by (cases xs) auto

lemma arraySort_in_order:
  "sorted_wrt (\<lambda>a b. cmp a b \<le> 0) xs \<Longrightarrow> arraySort cmp xs = xs"
  unfolding arraySort_def
proof (induction xs)
  case Nil
  then show ?case by simp
next
  case (Cons x xs)
  then have "foldr (insertBy cmp) xs [] = xs" by simp
  with Cons.prems show ?case
    using insertBy_in_order[of cmp x xs] by simp
qed

lemma insertBy_keeps_order:
  assumes tr: "\<And>a b c. cmp a b \<le> 0 \<Longrightarrow> cmp b c \<le> 0 \<Longrightarrow> cmp a c \<le> 0"
    and tot: "\<And>a b. \<not> cmp a b \<le> 0 \<Longrightarrow> cmp b a \<le> 0"
  shows "sorted_wrt (\<lambda>a b. cmp a b \<le> 0) xs
         \<Longrightarrow> sorted_wrt (\<lambda>a b. cmp a b \<le> 0) (insertBy cmp x xs)"
proof (induction xs)
  case Nil
  then show ?case by simp
next
  case (Cons y ys)
  show ?case
  proof (cases "cmp x y \<le> 0")
    case True
    with Cons.prems tr show ?thesis by auto
  next
    case False
    with Cons tot show ?thesis by (auto simp: set_insertBy)
  qed
qed

lemma arraySort_ordered:
  assumes tr: "\<And>a b c. cmp a b \<le> 0 \<Longrightarrow> cmp b c \<le> 0 \<Longrightarrow> cmp a c \<le> 0"
    and tot: "\<And>a b. \<not> cmp a b \<le> 0 \<Longrightarrow> cmp b a \<le> 0"
  shows "sorted_wrt (\<lambda>a b. cmp a b \<le> 0) (arraySort cmp xs)"
  unfolding arraySort_def
  by (induction xs) (simp_all add: insertBy_keeps_order[OF tr tot])

subsection \<open>Every route keeps the invariant of the user collection\<close>
















lemma admin_login:
  "post_auth_login exampleSecret 1700000000000 adminLogin initialState
     = (ok 200 (DAuth adminToken \<lparr>view_id = ''1'', view_username = JStr ''admin'',
                                 view_email = JStr ''admin@example.com'',
                                 view_lastLogin = Some 1700000000000\<rparr>) None,
        initialState\<lparr>users := (users initialState)
          [0 := (users initialState ! 0)\<lparr>lastLogin := Some 1700000000000\<rparr>]\<rparr>)"
  by (simp add: post_auth_login_def adminLogin_def initialState_def seedUsers_def
      findUserByUsername_def strictEquals_def generateToken_24h adminToken_def Let_def)

lemma admin_login_half_second:
  "fst (post_auth_login exampleSecret 1700000000500 adminLogin initialState)
     = ok 200 (DAuth adminToken \<lparr>view_id = ''1'', view_username = JStr ''admin'',
                                 view_email = JStr ''admin@example.com'',
                                 view_lastLogin = Some 1700000000500\<rparr>) None"
  by (simp add: post_auth_login_def adminLogin_def initialState_def seedUsers_def
      findUserByUsername_def strictEquals_def generateToken_24h adminToken_def Let_def)

section \<open>The claims\<close>

text \<open>
  Claim C6. Deleting with an id that no course of the collection has answers 404 with
  the error \<^verbatim>\<open>Course not found\<close>, and the collection afterwards is the collection
  before: the same courses in the same order. The request has passed the token check and
  the id is the non-empty path parameter of the route.
\<close>

theorem delete_unknown_id_not_found:
  assumes "authenticateToken secret now authHeader = Inr u"
    and "i \<noteq> []"
    and "\<forall>c \<in> set (courses st). c ''id'' \<noteq> Some (JStr i)"
  shows "delete_course secret now authHeader i st = (failure 404 ''Course not found'', st)
         \<and> deleteCourse i (courses st) = (False, courses st)"
proof -
  from assms(3) have "findIndex (hasId i) (courses st) = None"
    by (simp add: findIndex_None hasId_def)
  then have "deleteCourse i (courses st) = (False, courses st)"
    by (simp add: deleteCourse_def)
  with assms(1,2) show ?thesis
    by (simp add: delete_course_def)
qed

theorem delete_unknown_id_not_found_witness:
  "authenticateToken exampleSecret 1700000000500 (bearer adminToken) = Inr (decoded adminToken)
   \<and> ''999'' \<noteq> []
   \<and> \<not> list_ex (hasId ''999'') (courses initialState)
   \<and> delete_course exampleSecret 1700000000500 (bearer adminToken) ''999'' initialState
       = (failure 404 ''Course not found'', initialState)
   \<and> deleteCourse ''999'' (courses initialState) = (False, courses initialState)"
proof -
  have "\<forall>x \<in> set (map (\<lambda>c. c ''id'') (courses initialState)). x \<noteq> Some (JStr ''999'')"
    unfolding seed_ids by simp
  then have none: "\<forall>c \<in> set (courses initialState). c ''id'' \<noteq> Some (JStr ''999'')"
    by simp
  then have "\<not> list_ex (hasId ''999'') (courses initialState)"
    by (simp add: list_ex_iff hasId_def)
  with delete_unknown_id_not_found[OF auth_example _ none] auth_example
  show ?thesis by simp
qed

text \<open>
  Claim C7. For every list of courses, every sort field (the six named ones, and any other
  string, for which the comparator answers 0) and both directions, sorting the sorted
  sequence again with the same field and direction gives the same sequence.
\<close>

theorem sortedCourses_idempotent:
  "sortedCourses sortField dir (sortedCourses sortField dir cs) = sortedCourses sortField dir cs"
  unfolding sortedCourses_def
  by (rule arraySort_in_order, rule arraySort_ordered)
     (erule (1) compareCourses_trans, erule compareCourses_total)

text \<open>
  Claim C10. Whatever the body of a create request holds under id, createdAt and updatedAt,
  the stored course has the id made from the clock and both dates set to the instant of
  creation. The request has passed the token check and the validation.
\<close>

theorem create_stamps_fresh_id_and_dates:
  assumes "authenticateToken secret now authHeader = Inr u"
    and "validateCourse body = None"
  shows "\<exists>c. post_courses secret now authHeader body st
               = (ok 201 (DCourse c) (Some ''Course created successfully''),
                  st\<lparr>courses := courses st @ [c]\<rparr>)
             \<and> c ''id'' = Some (JStr (toString now))
             \<and> c ''createdAt'' = Some (JDate now)
             \<and> c ''updatedAt'' = Some (JDate now)"
  using assms by (auto simp: post_courses_def addCourse_def Let_def)

theorem create_stamps_fresh_id_and_dates_witness:
  "authenticateToken exampleSecret 1700000000500 (bearer adminToken) = Inr (decoded adminToken)
   \<and> validateCourse clientStampedBody = None
   \<and> clientStampedBody ''id'' = Some (JStr ''999'')
   \<and> clientStampedBody ''createdAt'' = Some (JStr ''2000-01-01T00:00:00.000Z'')
   \<and> clientStampedBody ''updatedAt'' = Some (JStr ''2000-01-01T00:00:00.000Z'')
   \<and> (\<exists>c. post_courses exampleSecret 1700000000500 (bearer adminToken) clientStampedBody initialState
               = (ok 201 (DCourse c) (Some ''Course created successfully''),
                  initialState\<lparr>courses := courses initialState @ [c]\<rparr>)
             \<and> c ''id'' = Some (JStr ''1700000000500'')
             \<and> c ''createdAt'' = Some (JDate 1700000000500)
             \<and> c ''updatedAt'' = Some (JDate 1700000000500))"
  using create_stamps_fresh_id_and_dates[OF auth_example validate_clientStampedBody, of initialState]
    auth_example validate_clientStampedBody
  by (simp add: clientStampedBody_def toString_example)




text \<open>
  Claim C4. The id and createdAt of a stored course should survive every update. They do
  not when the body carries those keys: \<^verbatim>\<open>updateCourse\<close> spreads the whole body over
  the stored record. Here the course with id 1 ends with the id and the createdAt of the body.
\<close>

theorem update_overwrites_id_and_createdAt:
  "(courses initialState ! 0) ''id'' = Some (JStr ''1'')
   \<and> (courses initialState ! 0) ''createdAt'' = Some (JDate 1705276800000)
   \<and> status (fst (put_course exampleSecret 1700000000500 (bearer adminToken) ''1''
                     clientStampedBody initialState)) = 200
   \<and> (courses (snd (put_course exampleSecret 1700000000500 (bearer adminToken) ''1''
                     clientStampedBody initialState)) ! 0) ''id'' = Some (JStr ''999'')
   \<and> (courses (snd (put_course exampleSecret 1700000000500 (bearer adminToken) ''1''
                     clientStampedBody initialState)) ! 0) ''createdAt''
       = Some (JStr ''2000-01-01T00:00:00.000Z'')"
proof -
  have s: "(courses initialState ! 0) ''id'' = Some (JStr ''1'')
         \<and> (courses initialState ! 0) ''createdAt'' = Some (JDate 1705276800000)"
    by (simp add: initialState_def seedCourses_def seedCourse_def)
  have len: "0 < length (courses initialState)"
    by (simp add: initialState_def seedCourses_def)
  have "put_course exampleSecret 1700000000500 (bearer adminToken) ''1'' clientStampedBody initialState
        = (ok 200 (DCourse (((courses initialState ! 0) ++ clientStampedBody)(''updatedAt'' \<mapsto> JDate 1700000000500)))
            (Some ''Course updated successfully''),
          initialState\<lparr>courses := (courses initialState)
            [0 := ((courses initialState ! 0) ++ clientStampedBody)(''updatedAt'' \<mapsto> JDate 1700000000500)]\<rparr>)"
    using auth_example validate_clientStampedBody first_seed
    by (simp add: put_course_def updateCourse_def Let_def)
  with s len show ?thesis
    by (simp add: ok_def clientStampedBody_def map_add_def)
qed

text \<open>
  Claim C5. A duration that is positive but not a whole number should be rejected by create
  and update. The middleware only checks that it is a number above 0: a duration of 2.5 is
  accepted and stored by both routes.
\<close>

theorem fractional_duration_accepted:
  "fractionalBody ''duration'' = Some (JNum (5 / 2))
   \<and> status (fst (post_courses exampleSecret 1700000000500 (bearer adminToken)
                     fractionalBody initialState)) = 201
   \<and> last (courses (snd (post_courses exampleSecret 1700000000500 (bearer adminToken)
                     fractionalBody initialState))) ''duration'' = Some (JNum (5 / 2))
   \<and> status (fst (put_course exampleSecret 1700000000500 (bearer adminToken) ''1''
                     fractionalBody initialState)) = 200
   \<and> (courses (snd (put_course exampleSecret 1700000000500 (bearer adminToken) ''1''
                     fractionalBody initialState)) ! 0) ''duration'' = Some (JNum (5 / 2))"
proof -
  have len: "0 < length (courses initialState)"
    by (simp add: initialState_def seedCourses_def)
  have d: "fractionalBody ''duration'' = Some (JNum (5 / 2))"
    by (simp add: fractionalBody_def)
  have "post_courses exampleSecret 1700000000500 (bearer adminToken) fractionalBody initialState
        = (ok 201 (DCourse (fst (addCourse 1700000000500 fractionalBody (courses initialState))))
             (Some ''Course created successfully''),
           initialState\<lparr>courses := snd (addCourse 1700000000500 fractionalBody (courses initialState))\<rparr>)"
    using auth_example validate_fractionalBody
    by (simp add: post_courses_def split_beta)
  moreover have "put_course exampleSecret 1700000000500 (bearer adminToken) ''1'' fractionalBody initialState
        = (ok 200 (DCourse (((courses initialState ! 0) ++ fractionalBody)(''updatedAt'' \<mapsto> JDate 1700000000500)))
            (Some ''Course updated successfully''),
          initialState\<lparr>courses := (courses initialState)
            [0 := ((courses initialState ! 0) ++ fractionalBody)(''updatedAt'' \<mapsto> JDate 1700000000500)]\<rparr>)"
    using auth_example validate_fractionalBody first_seed
    by (simp add: put_course_def updateCourse_def Let_def)
  ultimately show ?thesis
    using d len by (simp add: ok_def addCourse_def map_add_def Let_def)
qed

text \<open>
  Claim C3. The id of a new course should differ from every id in the collection. The id is
  the clock's reading in milliseconds, so two create requests served within the same
  millisecond get the same id: after both, the collection holds it twice.
\<close>

theorem same_instant_same_id:
  "map (\<lambda>c. c ''id'')
     (courses (snd (post_courses exampleSecret 1700000000500 (bearer adminToken) exampleBody
        (snd (post_courses exampleSecret 1700000000500 (bearer adminToken) exampleBody initialState)))))
   = [Some (JStr ''1''), Some (JStr ''2''), Some (JStr ''3''), Some (JStr ''4''), Some (JStr ''5''),
      Some (JStr ''6''), Some (JStr ''1700000000500''), Some (JStr ''1700000000500'')]
   \<and> status (fst (post_courses exampleSecret 1700000000500 (bearer adminToken) exampleBody
        (snd (post_courses exampleSecret 1700000000500 (bearer adminToken) exampleBody initialState)))) = 201"
proof -
  have p: "post_courses exampleSecret 1700000000500 (bearer adminToken) exampleBody st
        = (ok 201 (DCourse (fst (addCourse 1700000000500 exampleBody (courses st))))
             (Some ''Course created successfully''),
           st\<lparr>courses := snd (addCourse 1700000000500 exampleBody (courses st))\<rparr>)" for st
    using auth_example validate_exampleBody
    by (simp add: post_courses_def split_beta)
  show ?thesis
    unfolding p using seed_ids
    by (simp add: addCourse_def ok_def toString_example Let_def)
qed




text \<open>
  Claim C9, amended. A login whose username matches a stored user and whose password is
  that user's answers 200 with a token that decodes to the user's id and username. The token
  is signed with the lifetime \<^verbatim>\<open>24h\<close> that \<^verbatim>\<open>generateToken\<close> passes, and its
  instants are whole seconds: verification, alone and through \<^verbatim>\<open>authenticateToken\<close>,
  succeeds at every instant whose second is before the second of the login plus 86400, so
  at every instant up to 24 hours less one second after the login; it fails (403) at every
  other instant, so at every instant from 24 hours after the login on. The stored user that
  a username matches is the first one whose username is \<^verbatim>\<open>===\<close> to it. The token
  library is the one modelled from the spec.
\<close>

theorem login_token_valid_for_24h:
  assumes "body ''username'' = Some uname" and "\<not> falsy (Some uname)"
    and "findUserByUsername uname (users st) = Some u"
    and "body ''password'' = Some (JStr (password u))" and "password u \<noteq> []"
  shows "\<exists>tok v st'.
           post_auth_login secret now body st = (ok 200 (DAuth tok v) None, st')
         \<and> decoded tok ''id'' = Some (JStr (user_id u))
         \<and> decoded tok ''username'' = Some (username u)
         \<and> (\<forall>t. t div 1000 < now div 1000 + 86400 \<longrightarrow>
               jwt_verify tok secret t = Some (decoded tok)
               \<and> authenticateToken secret t (bearer tok) = Inr (decoded tok))
         \<and> (\<forall>t. now div 1000 + 86400 \<le> t div 1000 \<longrightarrow>
               jwt_verify tok secret t = None
               \<and> authenticateToken secret t (bearer tok)
                   = Inl (failure 403 ''Invalid or expired token''))
         \<and> (\<forall>t. t + 1000 \<le> now + 86400000 \<longrightarrow>
               authenticateToken secret t (bearer tok) = Inr (decoded tok))
         \<and> (\<forall>t. now + 86400000 \<le> t \<longrightarrow>
               authenticateToken secret t (bearer tok)
                 = Inl (failure 403 ''Invalid or expired token''))"
proof -
  let ?tok = "\<lparr>tok_id = user_id u, tok_username = username u, issuedAt = now div 1000,
               expiresAt = now div 1000 + 86400, signedWith = secret\<rparr>"
  from assms have "\<exists>v st'. post_auth_login secret now body st = (ok 200 (DAuth ?tok v) None, st')"
    by (auto simp: post_auth_login_def generateToken_24h Let_def)
  moreover have "decoded ?tok ''id'' = Some (JStr (user_id u))"
    "decoded ?tok ''username'' = Some (username u)"
    by (simp_all add: decoded_def)
  moreover have ok: "\<forall>t. t div 1000 < now div 1000 + 86400 \<longrightarrow>
               jwt_verify ?tok secret t = Some (decoded ?tok)
               \<and> authenticateToken secret t (bearer ?tok) = Inr (decoded ?tok)"
    by (simp add: jwt_verify_def authenticateToken_def bearer_def)
  moreover have no: "\<forall>t. now div 1000 + 86400 \<le> t div 1000 \<longrightarrow>
               jwt_verify ?tok secret t = None
               \<and> authenticateToken secret t (bearer ?tok)
                   = Inl (failure 403 ''Invalid or expired token'')"
    by (simp add: jwt_verify_def authenticateToken_def bearer_def)
  moreover have "\<forall>t. t + 1000 \<le> now + 86400000 \<longrightarrow>
               authenticateToken secret t (bearer ?tok) = Inr (decoded ?tok)"
  proof (intro allI impI)
    fix t :: nat
    assume "t + 1000 \<le> now + 86400000"
    then have "t div 1000 < now div 1000 + 86400" by arith
    with ok show "authenticateToken secret t (bearer ?tok) = Inr (decoded ?tok)" by blast
  qed
  moreover have "\<forall>t. now + 86400000 \<le> t \<longrightarrow>
               authenticateToken secret t (bearer ?tok)
                 = Inl (failure 403 ''Invalid or expired token'')"
  proof (intro allI impI)
    fix t :: nat
    assume "now + 86400000 \<le> t"
    then have "now div 1000 + 86400 \<le> t div 1000" by arith
    with no show "authenticateToken secret t (bearer ?tok)
                 = Inl (failure 403 ''Invalid or expired token'')" by blast
  qed
  ultimately show ?thesis by blast
qed

theorem login_token_valid_for_24h_witness:
  "adminLogin ''username'' = Some (JStr ''admin'') \<and> \<not> falsy (Some (JStr ''admin''))
   \<and> findUserByUsername (JStr ''admin'') (users initialState) = Some (hd seedUsers)
   \<and> adminLogin ''password'' = Some (JStr (password (hd seedUsers)))
   \<and> password (hd seedUsers) \<noteq> []
   \<and> fst (post_auth_login exampleSecret 1700000000500 adminLogin initialState)
       = ok 200 (DAuth adminToken \<lparr>view_id = ''1'', view_username = JStr ''admin'',
                                   view_email = JStr ''admin@example.com'',
                                   view_lastLogin = Some 1700000000500\<rparr>) None
   \<and> decoded adminToken ''id'' = Some (JStr ''1'')
   \<and> decoded adminToken ''username'' = Some (JStr ''admin'')
   \<and> authenticateToken exampleSecret 1700086399999 (bearer adminToken) = Inr (decoded adminToken)
   \<and> authenticateToken exampleSecret 1700086400500 (bearer adminToken)
       = Inl (failure 403 ''Invalid or expired token'')"
proof -
  have h: "adminLogin ''username'' = Some (JStr ''admin'')" "\<not> falsy (Some (JStr ''admin''))"
    "findUserByUsername (JStr ''admin'') (users initialState) = Some (hd seedUsers)"
    "adminLogin ''password'' = Some (JStr (password (hd seedUsers)))"
    "password (hd seedUsers) \<noteq> []"
    by (simp_all add: adminLogin_def initialState_def seedUsers_def findUserByUsername_def
        strictEquals_def)
  have u: "user_id (hd seedUsers) = ''1''" "username (hd seedUsers) = JStr ''admin''"
    by (simp_all add: seedUsers_def)
  from login_token_valid_for_24h[OF h, of exampleSecret 1700000000500] obtain tok v st'
    where l: "post_auth_login exampleSecret 1700000000500 adminLogin initialState
              = (ok 200 (DAuth tok v) None, st')"
      and d: "decoded tok ''id'' = Some (JStr (user_id (hd seedUsers)))"
        "decoded tok ''username'' = Some (username (hd seedUsers))"
      and before: "\<forall>t. t div 1000 < 1700000000500 div 1000 + 86400 \<longrightarrow>
               jwt_verify tok exampleSecret t = Some (decoded tok)
               \<and> authenticateToken exampleSecret t (bearer tok) = Inr (decoded tok)"
      and after: "\<forall>t. 1700000000500 + 86400000 \<le> t \<longrightarrow>
               authenticateToken exampleSecret t (bearer tok)
                 = Inl (failure 403 ''Invalid or expired token'')"
    by blast
  from l admin_login_half_second have tok: "tok = adminToken"
    by (simp add: ok_def)
  from before have "authenticateToken exampleSecret 1700086399999 (bearer tok) = Inr (decoded tok)"
    by simp
  moreover from after have "authenticateToken exampleSecret 1700086400500 (bearer tok)
                 = Inl (failure 403 ''Invalid or expired token'')"
    by simp
  ultimately show ?thesis
    using h d admin_login_half_second unfolding tok u by simp
qed

text \<open>
  As the spec words it, verification succeeds at every instant before 24 hours after the
  login. The token of a login at 1700000000500 expires with the second 1700086400: at
  1700086400000, half a second before the 24 hours are over, it is refused.
\<close>

theorem token_refused_before_24h:
  "fst (post_auth_login exampleSecret 1700000000500 adminLogin initialState)
     = ok 200 (DAuth adminToken \<lparr>view_id = ''1'', view_username = JStr ''admin'',
                                 view_email = JStr ''admin@example.com'',
                                 view_lastLogin = Some 1700000000500\<rparr>) None
   \<and> (1700086400000::nat) < 1700000000500 + 86400000
   \<and> jwt_verify adminToken exampleSecret 1700086400000 = None
   \<and> authenticateToken exampleSecret 1700086400000 (bearer adminToken)
       = Inl (failure 403 ''Invalid or expired token'')"
  using admin_login_half_second
  by (simp add: jwt_verify_def authenticateToken_def bearer_def adminToken_def)

text \<open>
  Claim C2. The profile should carry id, username, email, lastLogin and coursesCreated, with
  email and lastLogin read from the stored user. The handler takes \<^verbatim>\<open>req.user\<close>, the
  decoded token, for the stored user: after the admin has logged in, the stored record has
  an email and a lastLogin, and the profile returned for the admin's token has neither; it
  has the token's iat and exp instead.
\<close>

theorem profile_from_token_not_store:
  "fst (post_auth_login exampleSecret 1700000000000 adminLogin initialState)
     = ok 200 (DAuth adminToken \<lparr>view_id = ''1'', view_username = JStr ''admin'',
                                 view_email = JStr ''admin@example.com'',
                                 view_lastLogin = Some 1700000000000\<rparr>) None
   \<and> email (users (snd (post_auth_login exampleSecret 1700000000000 adminLogin initialState)) ! 0)
       = JStr ''admin@example.com''
   \<and> lastLogin (users (snd (post_auth_login exampleSecret 1700000000000 adminLogin initialState)) ! 0)
       = Some 1700000000000
   \<and> fst (get_profile exampleSecret 1700000000500 (bearer adminToken)
            (snd (post_auth_login exampleSecret 1700000000000 adminLogin initialState)))
       = ok 200 (DProfile [''id'' \<mapsto> JStr ''1'', ''username'' \<mapsto> JStr ''admin'',
                           ''iat'' \<mapsto> JNum 1700000000, ''exp'' \<mapsto> JNum 1700086400,
                           ''coursesCreated'' \<mapsto> JNum 6]) None
   \<and> [''id'' \<mapsto> JStr ''1'', ''username'' \<mapsto> JStr ''admin'',
       ''iat'' \<mapsto> JNum 1700000000, ''exp'' \<mapsto> JNum 1700086400,
       ''coursesCreated'' \<mapsto> JNum 6] ''email'' = None
   \<and> [''id'' \<mapsto> JStr ''1'', ''username'' \<mapsto> JStr ''admin'',
       ''iat'' \<mapsto> JNum 1700000000, ''exp'' \<mapsto> JNum 1700086400,
       ''coursesCreated'' \<mapsto> JNum (6::rat)] ''lastLogin'' = None"
proof -
  note l = admin_login
  have c: "filter (\<lambda>course. course ''userId'' = Some (JStr ''1'')) (courses initialState) = courses initialState"
    by (simp add: initialState_def seedCourses_def seedCourse_def)
  have n: "length (courses initialState) = 6"
    by (simp add: initialState_def seedCourses_def)
  have d: "decoded adminToken ''id'' = Some (JStr ''1'')" "decoded adminToken ''lastLogin'' = None"
    by (simp_all add: decoded_def adminToken_def)
  have g: "fst (get_profile exampleSecret 1700000000500 (bearer adminToken) st)
      = ok 200 (DProfile ((decoded adminToken)(''coursesCreated'' \<mapsto>
            JNum (of_nat (length (filter (\<lambda>course. course ''userId'' = Some (JStr ''1'')) (courses st)))),
            ''lastLogin'' := None))) None" for st
    using auth_example d by (simp add: get_profile_def Let_def)
  have p: "(decoded adminToken)(''coursesCreated'' \<mapsto> JNum 6, ''lastLogin'' := None)
      = [''id'' \<mapsto> JStr ''1'', ''username'' \<mapsto> JStr ''admin'',
         ''iat'' \<mapsto> JNum 1700000000, ''exp'' \<mapsto> JNum 1700086400,
         ''coursesCreated'' \<mapsto> JNum 6]"
    by (rule ext) (simp add: decoded_def adminToken_def)
  have e: "email ((users initialState)[0 := (users initialState ! 0)\<lparr>lastLogin := Some 1700000000000\<rparr>] ! 0)
             = JStr ''admin@example.com''"
    "lastLogin ((users initialState)[0 := (users initialState ! 0)\<lparr>lastLogin := Some 1700000000000\<rparr>] ! 0)
             = Some 1700000000000"
    by (simp_all add: initialState_def seedUsers_def)
  show ?thesis
    unfolding l g by (simp add: c n p e)
qed

end
